theory Spec2Isabelle
  imports Complex_Main
begin

section \<open>Risk engine: likelihood, impact, ALE and classification\<close>

text \<open>
  A shallow embedding of \<^verbatim>\<open>risk_engine/calculator.py\<close> and of the verdict extraction of
  \<^verbatim>\<open>risk_engine/clients/cortex.py\<close>.

  Conventions of the embedding:
  \<^item> a Python \<^verbatim>\<open>float\<close> is a \<^typ>\<open>real\<close>: arithmetic is exact, and the infinities and
    NaN of IEEE arithmetic do not exist;
  \<^item> a Python \<^verbatim>\<open>str\<close> is a \<^typ>\<open>string\<close> of ASCII characters;
  \<^item> a \<^verbatim>\<open>dict\<close> of the configuration is a map, \<^verbatim>\<open>d.get(k, v)\<close> is \<open>dict_get\<close> and
    \<^verbatim>\<open>d[k]\<close> is \<open>dict_index\<close>, which raises \<open>KeyError\<close>;
  \<^item> an exception is the \<open>Inl\<close> branch of a sum;
  \<^item> in-place mutation is state passing: a function that writes into its argument
    returns the updated argument;
  \<^item> calls of the logger are left out; the HTTP requests of the Cortex client are not
    part of the model, which starts from a job that has been fetched.
\<close>

subsection \<open>Python primitives\<close>

datatype py_error =
  KeyError | ValueError | AttributeError | TypeError | IndexError | ZeroDivisionError

definition dict_get :: "('k \<rightharpoonup> 'v) \<Rightarrow> 'k \<Rightarrow> 'v \<Rightarrow> 'v" where
  "dict_get d k v = (case d k of None \<Rightarrow> v | Some x \<Rightarrow> x)"

definition dict_index :: "('k \<rightharpoonup> 'v) \<Rightarrow> 'k \<Rightarrow> py_error + 'v" where
  "dict_index d k = (case d k of None \<Rightarrow> Inl KeyError | Some x \<Rightarrow> Inr x)"

text \<open>\<^verbatim>\<open>str.lower()\<close> on ASCII text: the letters A to Z move to a to z.\<close>

definition lower_char :: "char \<Rightarrow> char" where
  "lower_char c =
     (let n = (of_char c :: nat) in if 65 \<le> n \<and> n \<le> 90 then char_of (n + 32) else c)"

definition py_lower :: "string \<Rightarrow> string" where
  "py_lower s = map lower_char s"

text \<open>\<^verbatim>\<open>max(xs)\<close> keeps the first largest element and raises on an empty list.\<close>

fun py_max :: "real list \<Rightarrow> py_error + real" where
  "py_max [] = Inl ValueError"
| "py_max (x # xs) = Inr (foldl (\<lambda>m y. if m < y then y else m) x xs)"

text \<open>
  \<^verbatim>\<open>round(x, n)\<close>: the nearest multiple of \<open>10\<^sup>-\<^sup>n\<close>, a tie going to the even
  neighbour.
\<close>

definition round_half_even :: "real \<Rightarrow> int" where
  "round_half_even x =
     (let f = \<lfloor>x\<rfloor>; d = x - of_int f
      in if d < 1 / 2 then f else if 1 / 2 < d then f + 1 else if even f then f else f + 1)"

definition py_round :: "real \<Rightarrow> nat \<Rightarrow> real" where
  "py_round x n = of_int (round_half_even (x * 10 ^ n)) / 10 ^ n"

subsection \<open>Data model\<close>

text \<open>
  Modelled from the spec: \<^verbatim>\<open>risk_engine/models.py\<close> is not among the sources. The
  records carry the fields that the spec lists and that the calculator, the Cortex
  client and the reporter read or write. The fields of an \<open>AnalyzerResult\<close> that the
  client copies from a JSON document without looking at them have a type parameter:
  \<open>'n\<close> for the analyzer identity, \<open>'a\<close> for namespace and predicate.
\<close>

record ('n, 'a) AnalyzerResult =
  analyzer_name :: 'n
  level :: string
  score :: real
  namespace :: 'a
  predicate :: 'a
  raw_value :: string

record Observable =
  data_value :: string
  data_type :: string

record 'a ObservableRisk =
  observable :: Observable
  analyzer_results :: "(string, 'a) AnalyzerResult list"
  likelihood :: real

record RiskScore =
  likelihood :: real
  impact_dollars :: real
  ale :: real
  risk_level :: string

record 'a CaseRiskAssessment =
  case_id :: string
  title :: string
  timestamp :: string
  asset_type :: string
  sensitivity :: string
  observables :: "'a ObservableRisk list"
  risk_score :: "RiskScore option"

text \<open>
  Modelled from the spec: \<^verbatim>\<open>risk_engine/config.py\<close> is not among the sources. Its
  tables and constants are the fields of a record that every function takes as its
  first argument.
\<close>

record config =
  VERDICT_WEIGHTS :: "string \<rightharpoonup> real"
  MALICIOUS_CONSENSUS_THRESHOLD :: int
  MALICIOUS_CONSENSUS_BOOST :: real
  ASSET_VALUES :: "string \<rightharpoonup> real"
  DEFAULT_ASSET_VALUE :: real
  SENSITIVITY_MULTIPLIERS :: "string \<rightharpoonup> real"
  DEFAULT_SENSITIVITY :: string
  RISK_THRESHOLDS :: "string \<rightharpoonup> real"

subsection \<open>Likelihood\<close>

text \<open>The list comprehension of \<^verbatim>\<open>compute_likelihood\<close>: one weight for each result.\<close>

definition verdict_weights :: "config \<Rightarrow> ('n, 'a) AnalyzerResult list \<Rightarrow> real list" where
  "verdict_weights cfg results = map (\<lambda>r. dict_get (VERDICT_WEIGHTS cfg) (level r) 0) results"

text \<open>
  The set comprehension of \<^verbatim>\<open>compute_likelihood\<close>: the analyzer names of the malicious
  results, each name once.
\<close>

definition malicious_analyzers :: "(string, 'a) AnalyzerResult list \<Rightarrow> string list" where
  "malicious_analyzers results =
     remdups (map analyzer_name (filter (\<lambda>r. level r = ''malicious'') results))"

definition compute_likelihood :: "config \<Rightarrow> (string, 'a) AnalyzerResult list \<Rightarrow> real" where
  "compute_likelihood cfg results =
     (if results = [] then 0
      else
        let weights = verdict_weights cfg results;
            avg = sum_list weights / real (length weights);
            unique_analyzers = length (malicious_analyzers results);
            avg' = (if MALICIOUS_CONSENSUS_THRESHOLD cfg \<le> int unique_analyzers
                    then avg * MALICIOUS_CONSENSUS_BOOST cfg else avg)
        in min avg' 1)"

subsection \<open>Impact\<close>

text \<open>
  Python evaluates the arguments of the second \<^verbatim>\<open>get\<close> before the call, so the
  multiplier of the default tier is looked up, and can raise, for every input.
\<close>

definition compute_impact :: "config \<Rightarrow> string \<Rightarrow> string \<Rightarrow> py_error + real" where
  "compute_impact cfg asset_ty sens =
     (let base = dict_get (ASSET_VALUES cfg) (py_lower asset_ty) (DEFAULT_ASSET_VALUE cfg)
      in (case dict_index (SENSITIVITY_MULTIPLIERS cfg) (DEFAULT_SENSITIVITY cfg) of
           Inl e \<Rightarrow> Inl e
         | Inr dflt \<Rightarrow>
             Inr (base * dict_get (SENSITIVITY_MULTIPLIERS cfg) (py_lower sens) dflt)))"

subsection \<open>Risk level\<close>

definition classify_risk :: "config \<Rightarrow> real \<Rightarrow> py_error + string" where
  "classify_risk cfg a =
     (case dict_index (RISK_THRESHOLDS cfg) ''critical'' of
        Inl e \<Rightarrow> Inl e
      | Inr c \<Rightarrow>
         (if c \<le> a then Inr ''Critical''
          else (case dict_index (RISK_THRESHOLDS cfg) ''high'' of
            Inl e \<Rightarrow> Inl e
          | Inr h \<Rightarrow>
             (if h \<le> a then Inr ''High''
              else (case dict_index (RISK_THRESHOLDS cfg) ''medium'' of
                Inl e \<Rightarrow> Inl e
              | Inr m \<Rightarrow>
                 (if m \<le> a then Inr ''Medium''
                  else (case dict_index (RISK_THRESHOLDS cfg) ''low'' of
                    Inl e \<Rightarrow> Inl e
                  | Inr l \<Rightarrow> (if l \<le> a then Inr ''Low'' else Inr ''Info''))))))))"

text \<open>The order of the five labels that the spec gives: Info, Low, Medium, High, Critical.\<close>

definition severity_rank :: "string \<Rightarrow> nat" where
  "severity_rank l =
     (if l = ''Critical'' then 4 else if l = ''High'' then 3
      else if l = ''Medium'' then 2 else if l = ''Low'' then 1 else 0)"

subsection \<open>Top-level scoring\<close>

text \<open>\<^verbatim>\<open>score_observable\<close> writes the likelihood into the observable and returns it.\<close>

definition score_observable :: "config \<Rightarrow> 'a ObservableRisk \<Rightarrow> 'a ObservableRisk \<times> real" where
  "score_observable cfg obs_risk =
     (let lh = compute_likelihood cfg (analyzer_results obs_risk)
      in (obs_risk\<lparr>ObservableRisk.likelihood := lh\<rparr>, lh))"

text \<open>
  The loop of \<^verbatim>\<open>score_case\<close>: the observables after the writes, and the list
  \<^verbatim>\<open>likelihoods\<close>, in the order of the visits.
\<close>

fun score_observables :: "config \<Rightarrow> 'a ObservableRisk list \<Rightarrow> 'a ObservableRisk list \<times> real list" where
  "score_observables cfg [] = ([], [])"
| "score_observables cfg (obs_risk # rest) =
     (let (obs', lh) = score_observable cfg obs_risk;
          (rest', lhs) = score_observables cfg rest
      in (obs' # rest', lh # lhs))"

text \<open>\<^verbatim>\<open>max(likelihoods) if likelihoods else 0.0\<close>\<close>

definition case_likelihood_of :: "real list \<Rightarrow> py_error + real" where
  "case_likelihood_of likelihoods = (if likelihoods \<noteq> [] then py_max likelihoods else Inr 0)"

text \<open>
  \<^verbatim>\<open>score_case\<close> returns the assessment as the call leaves it, also when it raises, and
  the score or the exception.
\<close>

definition score_case :: "config \<Rightarrow> 'a CaseRiskAssessment \<Rightarrow> 'a CaseRiskAssessment \<times> (py_error + RiskScore)" where
  "score_case cfg assessment =
     (let (obs', likelihoods) = score_observables cfg (observables assessment);
          assessment' = assessment\<lparr>observables := obs'\<rparr>
      in (case case_likelihood_of likelihoods of
           Inl e \<Rightarrow> (assessment', Inl e)
         | Inr case_likelihood \<Rightarrow>
            (case compute_impact cfg (asset_type assessment') (sensitivity assessment') of
               Inl e \<Rightarrow> (assessment', Inl e)
             | Inr impact \<Rightarrow>
                (let a = case_likelihood * impact
                 in (case classify_risk cfg a of
                      Inl e \<Rightarrow> (assessment', Inl e)
                    | Inr lvl \<Rightarrow>
                       (let risk = \<lparr>RiskScore.likelihood = py_round case_likelihood 4,
                                    impact_dollars = impact,
                                    ale = py_round a 2,
                                    risk_level = lvl\<rparr>
                        in (assessment'\<lparr>risk_score := Some risk\<rparr>, Inr risk)))))))"

section \<open>Cortex client: verdict extraction\<close>

















subsection \<open>Example configuration and fixtures\<close>

text \<open>
  The configuration of the scenarios A and B of the spec: the four verdict weights, the
  consensus threshold 2 and boost 1.2, the asset type database at 100000, the tier high
  at 2.0 and the four cutoffs. The default asset value, the tier medium and the default
  tier are chosen for the examples.
\<close>

definition scenario_config :: config where
  "scenario_config =
     \<lparr>VERDICT_WEIGHTS = [''malicious'' \<mapsto> 1, ''suspicious'' \<mapsto> 1 / 2, ''safe'' \<mapsto> 0, ''info'' \<mapsto> 0],
      MALICIOUS_CONSENSUS_THRESHOLD = 2,
      MALICIOUS_CONSENSUS_BOOST = 12 / 10,
      ASSET_VALUES = [''database'' \<mapsto> 100000],
      DEFAULT_ASSET_VALUE = 25000,
      SENSITIVITY_MULTIPLIERS = [''high'' \<mapsto> 2, ''medium'' \<mapsto> 1],
      DEFAULT_SENSITIVITY = ''medium'',
      RISK_THRESHOLDS = [''critical'' \<mapsto> 500000, ''high'' \<mapsto> 100000,
                         ''medium'' \<mapsto> 10000, ''low'' \<mapsto> 1000]\<rparr>"

text \<open>A verdict of analyzer \<open>n\<close> with level \<open>l\<close>, and an observable with given verdicts.\<close>

definition verdict :: "string \<Rightarrow> string \<Rightarrow> (string, string) AnalyzerResult" where
  "verdict n l =
     \<lparr>analyzer_name = n, level = l, score = 0, namespace = ''ns'', predicate = ''p'',
      raw_value = ''0''\<rparr>"

definition observed :: "(string, string) AnalyzerResult list \<Rightarrow> string ObservableRisk" where
  "observed vs =
     \<lparr>observable = \<lparr>data_value = ''198.51.100.7'', data_type = ''ip''\<rparr>,
      analyzer_results = vs, ObservableRisk.likelihood = 0\<rparr>"

definition assessment_of :: "string \<Rightarrow> string \<Rightarrow> string ObservableRisk list \<Rightarrow> string CaseRiskAssessment" where
  "assessment_of ty sens obs =
     \<lparr>case_id = ''~1'', title = ''case'', timestamp = ''2024-01-01'', asset_type = ty,
      sensitivity = sens, observables = obs, risk_score = None\<rparr>"

text \<open>
  A case on a database of high sensitivity with three observables, whose verdicts give
  the likelihoods 0.1, 0.9 and 0.3 under \<open>scenario_config\<close>.
\<close>

definition three_observables_case :: "string CaseRiskAssessment" where
  "three_observables_case =
     assessment_of ''Database'' ''HIGH''
       [observed [verdict ''VirusTotal'' ''suspicious'', verdict ''VirusTotal'' ''safe'',
                  verdict ''AbuseIPDB'' ''safe'', verdict ''OTX'' ''safe'',
                  verdict ''URLhaus'' ''info''],
        observed [verdict ''VirusTotal'' ''malicious'', verdict ''VirusTotal'' ''malicious'',
                  verdict ''VirusTotal'' ''malicious'', verdict ''VirusTotal'' ''malicious'',
                  verdict ''AbuseIPDB'' ''suspicious''],
        observed [verdict ''VirusTotal'' ''malicious'', verdict ''AbuseIPDB'' ''suspicious'',
                  verdict ''OTX'' ''safe'', verdict ''URLhaus'' ''safe'',
                  verdict ''MISP'' ''info'']]"

text \<open>
  A configuration and a case whose ALE, 999.996, lies just below the cutoff for Low and
  rounds to it.
\<close>

definition rounding_config :: config where
  "rounding_config = scenario_config\<lparr>ASSET_VALUES := [''workstation'' \<mapsto> 999996 / 1000]\<rparr>"

definition rounding_case :: "string CaseRiskAssessment" where
  "rounding_case =
     assessment_of ''workstation'' ''medium'' [observed [verdict ''VirusTotal'' ''malicious'']]"

text \<open>
  A case whose asset type, sensitivity tier and second verdict level are not in the
  tables of \<open>scenario_config\<close>.
\<close>

definition unrecognised_case :: "string CaseRiskAssessment" where
  "unrecognised_case =
     assessment_of ''Mainframe'' ''top-secret''
       [observed [verdict ''VirusTotal'' ''malicious'', verdict ''Sandbox'' ''benign'']]"





text \<open>A configuration whose weight for malicious is 2.\<close>

definition heavy_config :: config where
  "heavy_config = scenario_config\<lparr>VERDICT_WEIGHTS := [''malicious'' \<mapsto> 2]\<rparr>"

text \<open>A configuration whose cutoff for Low is 0.\<close>

definition zero_low_config :: config where
  "zero_low_config =
     scenario_config\<lparr>RISK_THRESHOLDS :=
       [''critical'' \<mapsto> 500000, ''high'' \<mapsto> 100000, ''medium'' \<mapsto> 10000, ''low'' \<mapsto> 0]\<rparr>"


section \<open>Properties\<close>

subsection \<open>Auxiliary facts\<close>

lemma score_observables_eq:
  "score_observables cfg os =
     (map (\<lambda>ob. ob\<lparr>ObservableRisk.likelihood := compute_likelihood cfg (analyzer_results ob)\<rparr>) os,
      map (\<lambda>ob. compute_likelihood cfg (analyzer_results ob)) os)"
  by (induction os) (simp_all add: score_observable_def Let_def)

lemma foldl_max_eq: "foldl (\<lambda>m y. if m < y then y else m) (x::real) xs = Max (set (x # xs))"
proof -
  have f: "(\<lambda>m y. if m < y then y else m) = (\<lambda>m y. max y (m::real))"
    by (intro ext) (simp add: max_def)
  have "foldl (\<lambda>m y. if m < y then y else m) x xs = foldl (\<lambda>m y. max y m) x xs"
    using f by simp
  also have "\<dots> = fold max xs x"
    by (simp add: foldl_conv_fold)
  also have "\<dots> = Max (set (x # xs))"
    by (simp only: Max.set_eq_fold)
  finally show ?thesis .
qed

lemma py_max_eq: "xs \<noteq> [] \<Longrightarrow> py_max xs = Inr (Max (set xs))"
proof (cases xs)
  case Nil
  assume "xs \<noteq> []"
  with Nil show ?thesis by simp
next
  case (Cons y ys)
  show ?thesis unfolding Cons py_max.simps foldl_max_eq ..
qed

lemma round_half_even_0: "round_half_even 0 = 0"
  by (simp add: round_half_even_def)

lemma py_round_0: "py_round 0 n = 0"
  by (simp add: py_round_def round_half_even_0)

lemma classify_total:
  assumes "RISK_THRESHOLDS cfg ''critical'' = Some c" "RISK_THRESHOLDS cfg ''high'' = Some h"
    "RISK_THRESHOLDS cfg ''medium'' = Some m" "RISK_THRESHOLDS cfg ''low'' = Some l"
  shows "classify_risk cfg a =
     Inr (if c \<le> a then ''Critical'' else if h \<le> a then ''High''
          else if m \<le> a then ''Medium'' else if l \<le> a then ''Low'' else ''Info'')"
  using assms by (simp add: classify_risk_def dict_index_def)

subsection \<open>Claims\<close>

text \<open>
  C4. \<^verbatim>\<open>classify_risk\<close> checks the four cutoffs in the order critical, high, medium, low
  and returns Critical, High, Medium, Low, and Info when no cutoff is reached. With
  cutoffs critical \<open>\<ge>\<close> high \<open>\<ge>\<close> medium \<open>\<ge>\<close> low, the rank of the label does not
  decrease as the ALE grows, with Info below Low below Medium below High below Critical.
\<close>

theorem classify_risk_order_monotonic:
  assumes "RISK_THRESHOLDS cfg ''critical'' = Some c" "RISK_THRESHOLDS cfg ''high'' = Some h"
    "RISK_THRESHOLDS cfg ''medium'' = Some m" "RISK_THRESHOLDS cfg ''low'' = Some l"
  shows "classify_risk cfg a =
     Inr (if c \<le> a then ''Critical'' else if h \<le> a then ''High''
          else if m \<le> a then ''Medium'' else if l \<le> a then ''Low'' else ''Info'')
    \<and> (l \<le> m \<and> m \<le> h \<and> h \<le> c \<and> a1 \<le> a2 \<longrightarrow>
         (\<exists>l1 l2. classify_risk cfg a1 = Inr l1 \<and> classify_risk cfg a2 = Inr l2
            \<and> severity_rank l1 \<le> severity_rank l2))"
proof
  show "classify_risk cfg a =
     Inr (if c \<le> a then ''Critical'' else if h \<le> a then ''High''
          else if m \<le> a then ''Medium'' else if l \<le> a then ''Low'' else ''Info'')"
    by (rule classify_total [OF assms])
next
  show "l \<le> m \<and> m \<le> h \<and> h \<le> c \<and> a1 \<le> a2 \<longrightarrow>
         (\<exists>l1 l2. classify_risk cfg a1 = Inr l1 \<and> classify_risk cfg a2 = Inr l2
            \<and> severity_rank l1 \<le> severity_rank l2)"
    unfolding classify_total [OF assms]
    by (auto simp: severity_rank_def)
qed

theorem classify_risk_order_monotonic_witness:
  "RISK_THRESHOLDS scenario_config ''critical'' = Some 500000
   \<and> RISK_THRESHOLDS scenario_config ''high'' = Some 100000
   \<and> RISK_THRESHOLDS scenario_config ''medium'' = Some 10000
   \<and> RISK_THRESHOLDS scenario_config ''low'' = Some 1000
   \<and> classify_risk scenario_config 100000 = Inr ''High''
   \<and> classify_risk scenario_config 2500 = Inr ''Low''
   \<and> severity_rank ''Low'' \<le> severity_rank ''High''"
  using classify_risk_order_monotonic [of scenario_config 500000 100000 10000 1000 100000 2500 100000]
  by (simp add: scenario_config_def severity_rank_def classify_risk_def dict_index_def)

lemma verdict_weights_nonneg:
  assumes "\<forall>l w. VERDICT_WEIGHTS cfg l = Some w \<longrightarrow> 0 \<le> w"
  shows "0 \<le> sum_list (verdict_weights cfg rs)"
proof -
  have "\<forall>x \<in> set (verdict_weights cfg rs). 0 \<le> x"
    using assms by (auto simp: verdict_weights_def dict_get_def split: option.splits)
  then show ?thesis by (simp add: sum_list_nonneg)
qed

lemma verdict_weights_le_length:
  assumes "\<forall>l w. VERDICT_WEIGHTS cfg l = Some w \<longrightarrow> w \<le> 1"
  shows "sum_list (verdict_weights cfg rs) \<le> real (length rs)"
proof (induction rs)
  case Nil
  show ?case by (simp add: verdict_weights_def)
next
  case (Cons r rs)
  have "dict_get (VERDICT_WEIGHTS cfg) (level r) 0 \<le> 1"
    using assms by (auto simp: dict_get_def split: option.splits)
  with Cons show ?case by (simp add: verdict_weights_def)
qed

lemma malicious_analyzers_card:
  "length (malicious_analyzers rs) = card (analyzer_name ` {r \<in> set rs. level r = ''malicious''})"
proof -
  have "set (filter (\<lambda>r. level r = ''malicious'') rs) = {r \<in> set rs. level r = ''malicious''}"
    by auto
  then show ?thesis
    by (simp add: malicious_analyzers_def length_remdups_card_conv del: set_filter)
qed

text \<open>
  C2. With every configured verdict weight non-negative (and a boost factor that is
  not negative; the spec takes it above 1), \<^verbatim>\<open>compute_likelihood\<close> returns a value
  between 0 and 1 for every list of analyzer results, boosted or not: the final
  \<^verbatim>\<open>min\<close> caps it at 1.
\<close>

theorem compute_likelihood_bounds:
  assumes "\<forall>l w. VERDICT_WEIGHTS cfg l = Some w \<longrightarrow> 0 \<le> w"
    and "0 \<le> MALICIOUS_CONSENSUS_BOOST cfg"
  shows "0 \<le> compute_likelihood cfg rs \<and> compute_likelihood cfg rs \<le> 1"
proof -
  have s: "0 \<le> sum_list (verdict_weights cfg rs)"
    by (rule verdict_weights_nonneg [OF assms(1)])
  have avg: "0 \<le> sum_list (verdict_weights cfg rs) / real (length (verdict_weights cfg rs))"
    using s by simp
  have "0 \<le> sum_list (verdict_weights cfg rs) / real (length (verdict_weights cfg rs))
               * MALICIOUS_CONSENSUS_BOOST cfg"
    using avg assms(2) by (rule mult_nonneg_nonneg)
  with avg show ?thesis
    by (simp add: compute_likelihood_def Let_def)
qed

theorem compute_likelihood_bounds_witness:
  "0 \<le> MALICIOUS_CONSENSUS_BOOST scenario_config
   \<and> compute_likelihood scenario_config
        [verdict ''VirusTotal'' ''malicious'', verdict ''AbuseIPDB'' ''malicious''] = 1
   \<and> 0 \<le> compute_likelihood scenario_config
        [verdict ''VirusTotal'' ''malicious'', verdict ''AbuseIPDB'' ''malicious'']
   \<and> compute_likelihood scenario_config
        [verdict ''VirusTotal'' ''malicious'', verdict ''AbuseIPDB'' ''malicious''] \<le> 1"
proof -
  have w: "\<forall>l w. VERDICT_WEIGHTS scenario_config l = Some w \<longrightarrow> 0 \<le> w"
    by (auto simp: scenario_config_def split: if_splits)
  have b: "0 \<le> MALICIOUS_CONSENSUS_BOOST scenario_config"
    by (simp add: scenario_config_def)
  have v: "compute_likelihood scenario_config
        [verdict ''VirusTotal'' ''malicious'', verdict ''AbuseIPDB'' ''malicious''] = 1"
    by (simp add: compute_likelihood_def verdict_weights_def malicious_analyzers_def
        dict_get_def scenario_config_def verdict_def Let_def)
  show ?thesis
    using w b v compute_likelihood_bounds [OF w b,
        of "[verdict ''VirusTotal'' ''malicious'', verdict ''AbuseIPDB'' ''malicious'']"]
    by simp
qed

lemma weighted_mean_le_1:
  assumes "\<forall>l w. VERDICT_WEIGHTS cfg l = Some w \<longrightarrow> w \<le> 1"
  shows "sum_list (verdict_weights cfg rs) / real (length rs) \<le> 1"
proof (cases "rs = []")
  case True
  then show ?thesis by (simp add: verdict_weights_def)
next
  case False
  then have "0 < real (length rs)" by simp
  then show ?thesis
    using verdict_weights_le_length [OF assms, of rs] by (simp add: divide_le_eq)
qed

text \<open>
  C3. The claim that below the threshold the likelihood is the unmodified mean fails:
  the final \<^verbatim>\<open>min\<close> caps the mean too. With the weight 2 for malicious and one malicious
  verdict, below the threshold 2, the mean is 2 and the likelihood is 1.
\<close>

theorem compute_likelihood_mean_capped_counterexample:
  "int (length (malicious_analyzers [verdict ''VirusTotal'' ''malicious'']))
     < MALICIOUS_CONSENSUS_THRESHOLD heavy_config
   \<and> sum_list (verdict_weights heavy_config [verdict ''VirusTotal'' ''malicious''])
       / real (length [verdict ''VirusTotal'' ''malicious'']) = 2
   \<and> compute_likelihood heavy_config [verdict ''VirusTotal'' ''malicious''] = 1"
  by (simp add: compute_likelihood_def verdict_weights_def malicious_analyzers_def
      dict_get_def heavy_config_def scenario_config_def verdict_def Let_def)

text \<open>
  C3, amended. \<^verbatim>\<open>compute_likelihood\<close> multiplies the arithmetic mean of the verdict
  weights by the boost factor exactly when the number of distinct analyzer names among
  the malicious results reaches the consensus threshold, and caps the result at 1.
  Below the threshold the result is the mean capped at 1: the mean itself whenever the
  mean is at most 1, as it is when no configured weight is above 1. Under the
  configuration of scenario A, two distinct analyzers reporting malicious give the mean
  1, boosted to 1.2 and capped to 1, while one analyzer reporting malicious twice is not
  boosted.
\<close>

theorem compute_likelihood_consensus:
  assumes "rs \<noteq> []"
  shows "compute_likelihood cfg rs =
      min (if MALICIOUS_CONSENSUS_THRESHOLD cfg
                \<le> int (card (analyzer_name ` {r \<in> set rs. level r = ''malicious''}))
           then sum_list (verdict_weights cfg rs) / real (length rs)
                  * MALICIOUS_CONSENSUS_BOOST cfg
           else sum_list (verdict_weights cfg rs) / real (length rs)) 1
    \<and> (int (card (analyzer_name ` {r \<in> set rs. level r = ''malicious''}))
             < MALICIOUS_CONSENSUS_THRESHOLD cfg
       \<longrightarrow> compute_likelihood cfg rs
             = min (sum_list (verdict_weights cfg rs) / real (length rs)) 1)
    \<and> (int (card (analyzer_name ` {r \<in> set rs. level r = ''malicious''}))
             < MALICIOUS_CONSENSUS_THRESHOLD cfg
         \<and> sum_list (verdict_weights cfg rs) / real (length rs) \<le> 1
       \<longrightarrow> compute_likelihood cfg rs = sum_list (verdict_weights cfg rs) / real (length rs))
    \<and> ((\<forall>l w. VERDICT_WEIGHTS cfg l = Some w \<longrightarrow> w \<le> 1)
         \<and> int (card (analyzer_name ` {r \<in> set rs. level r = ''malicious''}))
             < MALICIOUS_CONSENSUS_THRESHOLD cfg
       \<longrightarrow> compute_likelihood cfg rs = sum_list (verdict_weights cfg rs) / real (length rs))
    \<and> (n1 \<noteq> n2 \<longrightarrow>
         sum_list (verdict_weights scenario_config
           [verdict n1 ''malicious'', verdict n2 ''malicious'']) / 2 = 1
         \<and> sum_list (verdict_weights scenario_config
           [verdict n1 ''malicious'', verdict n2 ''malicious'']) / 2
             * MALICIOUS_CONSENSUS_BOOST scenario_config = 12 / 10
         \<and> compute_likelihood scenario_config
              [verdict n1 ''malicious'', verdict n2 ''malicious''] = 1)
    \<and> compute_likelihood scenario_config
         [verdict n1 ''malicious'', verdict n1 ''malicious'', verdict n1 ''safe''] = 2 / 3"
proof (intro conjI impI)
  have len: "length (verdict_weights cfg rs) = length rs"
    by (simp add: verdict_weights_def)
  show eq: "compute_likelihood cfg rs =
      min (if MALICIOUS_CONSENSUS_THRESHOLD cfg
                \<le> int (card (analyzer_name ` {r \<in> set rs. level r = ''malicious''}))
           then sum_list (verdict_weights cfg rs) / real (length rs)
                  * MALICIOUS_CONSENSUS_BOOST cfg
           else sum_list (verdict_weights cfg rs) / real (length rs)) 1"
    using assms by (simp add: compute_likelihood_def Let_def len malicious_analyzers_card)
  {
    assume "int (card (analyzer_name ` {r \<in> set rs. level r = ''malicious''}))
             < MALICIOUS_CONSENSUS_THRESHOLD cfg"
    then show "compute_likelihood cfg rs
             = min (sum_list (verdict_weights cfg rs) / real (length rs)) 1"
      unfolding eq by simp
  }
  {
    assume "int (card (analyzer_name ` {r \<in> set rs. level r = ''malicious''}))
             < MALICIOUS_CONSENSUS_THRESHOLD cfg
         \<and> sum_list (verdict_weights cfg rs) / real (length rs) \<le> 1"
    then show "compute_likelihood cfg rs = sum_list (verdict_weights cfg rs) / real (length rs)"
      unfolding eq by simp
  }
  {
    assume h: "(\<forall>l w. VERDICT_WEIGHTS cfg l = Some w \<longrightarrow> w \<le> 1)
         \<and> int (card (analyzer_name ` {r \<in> set rs. level r = ''malicious''}))
             < MALICIOUS_CONSENSUS_THRESHOLD cfg"
    then have "sum_list (verdict_weights cfg rs) / real (length rs) \<le> 1"
      using weighted_mean_le_1 by blast
    with h show "compute_likelihood cfg rs = sum_list (verdict_weights cfg rs) / real (length rs)"
      unfolding eq by simp
  }
  {
    assume "n1 \<noteq> n2"
    then show "compute_likelihood scenario_config
              [verdict n1 ''malicious'', verdict n2 ''malicious''] = 1"
      by (simp add: compute_likelihood_def verdict_weights_def malicious_analyzers_def
          dict_get_def scenario_config_def verdict_def Let_def)
  }
  show "sum_list (verdict_weights scenario_config
           [verdict n1 ''malicious'', verdict n2 ''malicious'']) / 2 = 1"
    by (simp add: verdict_weights_def dict_get_def scenario_config_def verdict_def)
  show "sum_list (verdict_weights scenario_config
           [verdict n1 ''malicious'', verdict n2 ''malicious'']) / 2
             * MALICIOUS_CONSENSUS_BOOST scenario_config = 12 / 10"
    by (simp add: verdict_weights_def dict_get_def scenario_config_def verdict_def)
  show "compute_likelihood scenario_config
         [verdict n1 ''malicious'', verdict n1 ''malicious'', verdict n1 ''safe''] = 2 / 3"
    by (simp add: compute_likelihood_def verdict_weights_def malicious_analyzers_def
        dict_get_def scenario_config_def verdict_def Let_def)
qed

theorem compute_likelihood_consensus_witness:
  "[verdict ''VirusTotal'' ''malicious'', verdict ''VirusTotal'' ''suspicious''] \<noteq> []
   \<and> int (card (analyzer_name ` {r \<in> set [verdict ''VirusTotal'' ''malicious'',
              verdict ''VirusTotal'' ''suspicious'']. level r = ''malicious''}))
        < MALICIOUS_CONSENSUS_THRESHOLD scenario_config
   \<and> ''VirusTotal'' \<noteq> ''AbuseIPDB''
   \<and> sum_list (verdict_weights scenario_config
        [verdict ''VirusTotal'' ''malicious'', verdict ''VirusTotal'' ''suspicious''])
       / real (length [verdict ''VirusTotal'' ''malicious'', verdict ''VirusTotal'' ''suspicious''])
       \<le> 1
   \<and> compute_likelihood scenario_config
        [verdict ''VirusTotal'' ''malicious'', verdict ''VirusTotal'' ''suspicious''] = 3 / 4
   \<and> compute_likelihood scenario_config
        [verdict ''VirusTotal'' ''malicious'', verdict ''AbuseIPDB'' ''malicious''] = 1"
proof -
  let ?rs = "[verdict ''VirusTotal'' ''malicious'', verdict ''VirusTotal'' ''suspicious'']"
  have ne: "?rs \<noteq> []" by simp
  have w: "\<forall>l w. VERDICT_WEIGHTS scenario_config l = Some w \<longrightarrow> w \<le> 1"
    by (auto simp: scenario_config_def split: if_splits)
  have "{r \<in> set ?rs. level r = ''malicious''} = {verdict ''VirusTotal'' ''malicious''}"
    by (auto simp: verdict_def)
  then have c: "int (card (analyzer_name ` {r \<in> set ?rs. level r = ''malicious''}))
        < MALICIOUS_CONSENSUS_THRESHOLD scenario_config"
    by (simp add: scenario_config_def)
  have m: "sum_list (verdict_weights scenario_config ?rs) / real (length ?rs) = 3 / 4"
    by (simp add: verdict_weights_def dict_get_def scenario_config_def verdict_def)
  have d: "''VirusTotal'' \<noteq> ''AbuseIPDB''" by simp
  note th = compute_likelihood_consensus [OF ne, of scenario_config "''VirusTotal''" "''AbuseIPDB''"]
  have a: "compute_likelihood scenario_config ?rs = 3 / 4"
    using th c m by simp
  have b: "compute_likelihood scenario_config
        [verdict ''VirusTotal'' ''malicious'', verdict ''AbuseIPDB'' ''malicious''] = 1"
    using th d by blast
  show ?thesis
    using ne c d m a b by simp
qed

lemma case_likelihood_of_eq:
  "case_likelihood_of lhs = Inr (if lhs = [] then 0 else Max (set lhs))"
  by (simp add: case_likelihood_of_def py_max_eq)

lemma score_case_observables:
  "observables (fst (score_case cfg a)) = fst (score_observables cfg (observables a))"
  by (simp add: score_case_def Let_def split: prod.splits sum.splits)

lemma score_case_Inr:
  assumes "snd (score_case cfg a) = Inr rs"
  shows "\<exists>cl imp. case_likelihood_of (snd (score_observables cfg (observables a))) = Inr cl
     \<and> compute_impact cfg (asset_type a) (sensitivity a) = Inr imp
     \<and> classify_risk cfg (cl * imp) = Inr (risk_level rs)
     \<and> RiskScore.likelihood rs = py_round cl 4
     \<and> impact_dollars rs = imp
     \<and> ale rs = py_round (cl * imp) 2"
  using assms
  by (auto simp: score_case_def Let_def split: prod.splits sum.splits)

lemma score_case_returns:
  assumes "case_likelihood_of (snd (score_observables cfg (observables a))) = Inr cl"
    and "compute_impact cfg (asset_type a) (sensitivity a) = Inr imp"
    and "classify_risk cfg (cl * imp) = Inr lvl"
  shows "snd (score_case cfg a) =
     Inr \<lparr>RiskScore.likelihood = py_round cl 4, impact_dollars = imp,
          ale = py_round (cl * imp) 2, risk_level = lvl\<rparr>"
  using assms
  by (cases "score_observables cfg (observables a)") (simp add: score_case_def Let_def)

lemma case_likelihood_scored:
  "case_likelihood_of (snd (score_observables cfg obs)) =
     Inr (if obs = [] then 0
          else Max ((\<lambda>ob. compute_likelihood cfg (analyzer_results ob)) ` set obs))"
  by (simp add: score_observables_eq case_likelihood_of_eq)

lemma lower_database: "py_lower ''Database'' = ''database''"
  by code_simp

lemma lower_high: "py_lower ''HIGH'' = ''high''"
  by code_simp

lemma three_likelihoods:
  "map (\<lambda>ob. compute_likelihood scenario_config (analyzer_results ob))
     (observables three_observables_case) = [1 / 10, 9 / 10, 3 / 10]"
  by (simp add: three_observables_case_def assessment_of_def observed_def
      compute_likelihood_def verdict_weights_def malicious_analyzers_def
      dict_get_def scenario_config_def verdict_def Let_def)

lemma three_score:
  "snd (score_case scenario_config three_observables_case) =
     Inr \<lparr>RiskScore.likelihood = 9 / 10, impact_dollars = 200000, ale = 180000,
          risk_level = ''High''\<rparr>"
proof -
  have cl: "case_likelihood_of (snd (score_observables scenario_config
              (observables three_observables_case))) = Inr (9 / 10)"
    by (simp add: score_observables_eq three_likelihoods case_likelihood_of_def)
  have imp: "compute_impact scenario_config (asset_type three_observables_case)
               (sensitivity three_observables_case) = Inr 200000"
    by (simp add: three_observables_case_def assessment_of_def compute_impact_def
        lower_database lower_high dict_get_def dict_index_def scenario_config_def)
  have lvl: "classify_risk scenario_config (9 / 10 * 200000) = Inr ''High''"
    by (simp add: classify_risk_def dict_index_def scenario_config_def)
  have r4: "py_round (9 / 10) 4 = 9 / 10"
    by (simp add: py_round_def round_half_even_def Let_def)
  have r2: "py_round (9 / 10 * 200000) 2 = 180000"
    by (simp add: py_round_def round_half_even_def Let_def)
  show ?thesis
    using score_case_returns [OF cl imp lvl] by (simp only: r4 r2)
qed

text \<open>
  C5. \<^verbatim>\<open>score_case\<close> scores every observable of the assessment in stored order, writing
  the likelihood of each into it, and takes as case likelihood the largest of the
  collected likelihoods, or 0 when there is no observable; the score reports that value
  rounded to 4 places. Likelihoods 0.1, 0.9 and 0.3 give the case likelihood 0.9.
\<close>

theorem score_case_max_likelihood:
  "observables (fst (score_case cfg a)) =
     map (\<lambda>ob. ob\<lparr>ObservableRisk.likelihood := compute_likelihood cfg (analyzer_results ob)\<rparr>)
       (observables a)
   \<and> snd (score_observables cfg (observables a)) =
       map (\<lambda>ob. compute_likelihood cfg (analyzer_results ob)) (observables a)
   \<and> case_likelihood_of (snd (score_observables cfg (observables a))) =
       Inr (if observables a = [] then 0
            else Max ((\<lambda>ob. compute_likelihood cfg (analyzer_results ob)) ` set (observables a)))
   \<and> (\<forall>rs. snd (score_case cfg a) = Inr rs \<longrightarrow>
         RiskScore.likelihood rs =
           py_round (if observables a = [] then 0
             else Max ((\<lambda>ob. compute_likelihood cfg (analyzer_results ob)) ` set (observables a))) 4)
   \<and> case_likelihood_of [1 / 10, 9 / 10, 3 / 10] = Inr (9 / 10)"
proof (intro conjI allI impI)
  show "observables (fst (score_case cfg a)) =
     map (\<lambda>ob. ob\<lparr>ObservableRisk.likelihood := compute_likelihood cfg (analyzer_results ob)\<rparr>)
       (observables a)"
    by (simp add: score_case_observables score_observables_eq)
  show "snd (score_observables cfg (observables a)) =
       map (\<lambda>ob. compute_likelihood cfg (analyzer_results ob)) (observables a)"
    by (simp add: score_observables_eq)
  show "case_likelihood_of (snd (score_observables cfg (observables a))) =
       Inr (if observables a = [] then 0
            else Max ((\<lambda>ob. compute_likelihood cfg (analyzer_results ob)) ` set (observables a)))"
    by (rule case_likelihood_scored)
  show "case_likelihood_of [1 / 10, 9 / 10, 3 / 10] = Inr (9 / 10)"
    by (simp add: case_likelihood_of_def)
next
  fix rs
  assume "snd (score_case cfg a) = Inr rs"
  then obtain cl where
    "case_likelihood_of (snd (score_observables cfg (observables a))) = Inr cl"
    "RiskScore.likelihood rs = py_round cl 4"
    using score_case_Inr by blast
  then show "RiskScore.likelihood rs =
           py_round (if observables a = [] then 0
             else Max ((\<lambda>ob. compute_likelihood cfg (analyzer_results ob)) ` set (observables a))) 4"
    by (simp add: case_likelihood_scored)
qed

theorem score_case_max_likelihood_witness:
  "snd (score_case scenario_config three_observables_case) =
     Inr \<lparr>RiskScore.likelihood = 9 / 10, impact_dollars = 200000, ale = 180000,
          risk_level = ''High''\<rparr>
   \<and> map ObservableRisk.likelihood
        (observables (fst (score_case scenario_config three_observables_case))) =
       [1 / 10, 9 / 10, 3 / 10]
   \<and> snd (score_observables scenario_config (observables three_observables_case)) =
       [1 / 10, 9 / 10, 3 / 10]"
  using score_case_max_likelihood [of scenario_config three_observables_case]
    three_score three_likelihoods
  by (simp add: comp_def)

text \<open>
  C7. The claim that an assessment without observables always gets the level Info fails:
  the ALE 0 is compared with the cutoffs like every other ALE. With a cutoff for Low of
  0, the empty case has the likelihood 0, the ALE 0 and the level Low.
\<close>

theorem score_case_no_observables_counterexample:
  "observables (assessment_of ''database'' ''high'' []) = []
   \<and> snd (score_case zero_low_config (assessment_of ''database'' ''high'' [])) =
       Inr \<lparr>RiskScore.likelihood = 0, impact_dollars = 200000, ale = 0,
            risk_level = ''Low''\<rparr>"
proof -
  have cl: "case_likelihood_of (snd (score_observables zero_low_config
              (observables (assessment_of ''database'' ''high'' [])))) = Inr 0"
    by (simp add: assessment_of_def case_likelihood_of_def)
  have imp: "compute_impact zero_low_config (asset_type (assessment_of ''database'' ''high'' []))
               (sensitivity (assessment_of ''database'' ''high'' [])) = Inr 200000"
    by (simp add: assessment_of_def compute_impact_def dict_get_def dict_index_def
        zero_low_config_def scenario_config_def py_lower_def lower_char_def)
  have lvl: "classify_risk zero_low_config (0 * 200000) = Inr ''Low''"
    by (simp add: classify_risk_def dict_index_def zero_low_config_def scenario_config_def)
  show ?thesis
    using score_case_returns [OF cl imp lvl] by (simp add: py_round_0 assessment_of_def)
qed

text \<open>
  C7, amended. For an assessment without observables, \<^verbatim>\<open>score_case\<close> produces the
  likelihood 0, the ALE 0 and the risk level that \<^verbatim>\<open>classify_risk\<close> gives to 0: the
  label of the first cutoff, in the order critical, high, medium, low, that is not
  above 0, and Info when all four cutoffs are above 0.
\<close>

theorem score_case_no_observables:
  assumes "observables a = []"
    and "SENSITIVITY_MULTIPLIERS cfg (DEFAULT_SENSITIVITY cfg) = Some dm"
    and "RISK_THRESHOLDS cfg ''critical'' = Some c" and "RISK_THRESHOLDS cfg ''high'' = Some h"
    and "RISK_THRESHOLDS cfg ''medium'' = Some m" and "RISK_THRESHOLDS cfg ''low'' = Some l"
  shows "\<exists>imp. compute_impact cfg (asset_type a) (sensitivity a) = Inr imp
     \<and> snd (score_case cfg a) =
         Inr \<lparr>RiskScore.likelihood = 0, impact_dollars = imp, ale = 0,
              risk_level = (if c \<le> 0 then ''Critical'' else if h \<le> 0 then ''High''
                            else if m \<le> 0 then ''Medium'' else if l \<le> 0 then ''Low''
                            else ''Info'')\<rparr>
     \<and> classify_risk cfg 0 =
         Inr (if c \<le> 0 then ''Critical'' else if h \<le> 0 then ''High''
              else if m \<le> 0 then ''Medium'' else if l \<le> 0 then ''Low'' else ''Info'')
     \<and> (0 < c \<and> 0 < h \<and> 0 < m \<and> 0 < l \<longrightarrow>
          snd (score_case cfg a) =
            Inr \<lparr>RiskScore.likelihood = 0, impact_dollars = imp, ale = 0,
                 risk_level = ''Info''\<rparr>)"
proof -
  let ?lvl = "if c \<le> 0 then ''Critical'' else if h \<le> 0 then ''High''
              else if m \<le> 0 then ''Medium'' else if l \<le> 0 then ''Low'' else ''Info''"
  obtain imp where imp: "compute_impact cfg (asset_type a) (sensitivity a) = Inr imp"
    using assms(2) by (simp add: compute_impact_def dict_index_def)
  have cl: "case_likelihood_of (snd (score_observables cfg (observables a))) = Inr 0"
    using assms(1) by (simp add: case_likelihood_of_def)
  have lvl0: "classify_risk cfg 0 = Inr ?lvl"
    by (rule classify_total [OF assms(3-6)])
  then have lvl: "classify_risk cfg (0 * imp) = Inr ?lvl"
    by simp
  have s: "snd (score_case cfg a) =
         Inr \<lparr>RiskScore.likelihood = 0, impact_dollars = imp, ale = 0, risk_level = ?lvl\<rparr>"
    using score_case_returns [OF cl imp lvl] by (simp add: py_round_0)
  have "0 < c \<and> 0 < h \<and> 0 < m \<and> 0 < l \<longrightarrow>
          snd (score_case cfg a) =
            Inr \<lparr>RiskScore.likelihood = 0, impact_dollars = imp, ale = 0,
                 risk_level = ''Info''\<rparr>"
    using s by auto
  with imp s lvl0 show ?thesis by blast
qed

theorem score_case_no_observables_witness:
  "observables (assessment_of ''database'' ''high'' []) = []
   \<and> SENSITIVITY_MULTIPLIERS scenario_config (DEFAULT_SENSITIVITY scenario_config) = Some 1
   \<and> RISK_THRESHOLDS scenario_config ''critical'' = Some 500000
   \<and> RISK_THRESHOLDS scenario_config ''high'' = Some 100000
   \<and> RISK_THRESHOLDS scenario_config ''medium'' = Some 10000
   \<and> RISK_THRESHOLDS scenario_config ''low'' = Some 1000
   \<and> snd (score_case scenario_config (assessment_of ''database'' ''high'' [])) =
         Inr \<lparr>RiskScore.likelihood = 0, impact_dollars = 200000, ale = 0,
              risk_level = ''Info''\<rparr>"
proof -
  have imp: "compute_impact scenario_config ''database'' ''high'' = Inr 200000"
    by (simp add: compute_impact_def dict_get_def dict_index_def scenario_config_def
        py_lower_def lower_char_def)
  show ?thesis
    using score_case_no_observables [of "assessment_of ''database'' ''high'' []"
        scenario_config 1 500000 100000 10000 1000] imp
    by (simp add: scenario_config_def assessment_of_def)
qed

text \<open>
  C1. The claim that the risk level is \<^verbatim>\<open>classify_risk\<close> of the rounded ALE fails:
  \<^verbatim>\<open>score_case\<close> passes the unrounded product to \<^verbatim>\<open>classify_risk\<close> and rounds only
  the reported number. For an ALE of 999.996 and a cutoff for Low of 1000, the score
  reports the ALE 1000 with the level Info, while 1000 classifies as Low.
\<close>

theorem score_case_rounded_level_counterexample:
  "snd (score_case rounding_config rounding_case) =
     Inr \<lparr>RiskScore.likelihood = 1, impact_dollars = 999996 / 1000, ale = 1000,
          risk_level = ''Info''\<rparr>
   \<and> classify_risk rounding_config 1000 = Inr ''Low''"
proof -
  have cl: "case_likelihood_of (snd (score_observables rounding_config
              (observables rounding_case))) = Inr 1"
    by (simp add: score_observables_eq rounding_case_def assessment_of_def observed_def
        case_likelihood_of_def compute_likelihood_def verdict_weights_def
        malicious_analyzers_def dict_get_def rounding_config_def scenario_config_def
        verdict_def Let_def)
  have imp: "compute_impact rounding_config (asset_type rounding_case)
               (sensitivity rounding_case) = Inr (999996 / 1000)"
    by (simp add: rounding_case_def assessment_of_def compute_impact_def dict_get_def
        dict_index_def rounding_config_def scenario_config_def py_lower_def lower_char_def)
  have lvl: "classify_risk rounding_config (1 * (999996 / 1000)) = Inr ''Info''"
    by (simp add: classify_risk_def dict_index_def rounding_config_def scenario_config_def)
  have r4: "py_round 1 4 = 1"
    by (simp add: py_round_def round_half_even_def Let_def)
  have r2: "py_round (1 * (999996 / 1000)) 2 = 1000"
    by (simp add: py_round_def round_half_even_def Let_def)
  have low: "classify_risk rounding_config 1000 = Inr ''Low''"
    by (simp add: classify_risk_def dict_index_def rounding_config_def scenario_config_def)
  show ?thesis
    using score_case_returns [OF cl imp lvl] low by (simp only: r4 r2 simp_thms)
qed

lemma classify_risk_same_side:
  assumes "\<forall>t \<in> ran (RISK_THRESHOLDS cfg). (t \<le> a) = (t \<le> b)"
  shows "classify_risk cfg a = classify_risk cfg b"
proof -
  have k: "(t \<le> a) = (t \<le> b)" if "RISK_THRESHOLDS cfg key = Some t" for key t
    using assms that by (auto simp: ran_def)
  show ?thesis
    by (auto simp: classify_risk_def dict_index_def k split: option.splits)
qed

text \<open>
  C1, amended. The risk level of the score is \<^verbatim>\<open>classify_risk\<close> applied to the unrounded
  ALE, the case likelihood times the impact; the reported ALE is that product rounded to
  2 places and the reported likelihood is the case likelihood rounded to 4 places. The
  level is the classification of the reported ALE whenever rounding moves the ALE across
  no configured cutoff.
\<close>

theorem score_case_level_of_unrounded_ale:
  assumes "snd (score_case cfg a) = Inr rs"
  shows "\<exists>imp. compute_impact cfg (asset_type a) (sensitivity a) = Inr imp
     \<and> classify_risk cfg
         ((if observables a = [] then 0
           else Max ((\<lambda>ob. compute_likelihood cfg (analyzer_results ob)) ` set (observables a)))
          * imp) = Inr (risk_level rs)
     \<and> ale rs = py_round
         ((if observables a = [] then 0
           else Max ((\<lambda>ob. compute_likelihood cfg (analyzer_results ob)) ` set (observables a)))
          * imp) 2
     \<and> RiskScore.likelihood rs = py_round
         (if observables a = [] then 0
          else Max ((\<lambda>ob. compute_likelihood cfg (analyzer_results ob)) ` set (observables a))) 4
     \<and> ((\<forall>t \<in> ran (RISK_THRESHOLDS cfg).
            (t \<le> ale rs) =
            (t \<le> (if observables a = [] then 0
                   else Max ((\<lambda>ob. compute_likelihood cfg (analyzer_results ob))
                          ` set (observables a))) * imp))
         \<longrightarrow> classify_risk cfg (ale rs) = Inr (risk_level rs))"
proof -
  obtain cl imp where h:
    "case_likelihood_of (snd (score_observables cfg (observables a))) = Inr cl"
    "compute_impact cfg (asset_type a) (sensitivity a) = Inr imp"
    "classify_risk cfg (cl * imp) = Inr (risk_level rs)"
    "RiskScore.likelihood rs = py_round cl 4"
    "ale rs = py_round (cl * imp) 2"
    using score_case_Inr [OF assms] by blast
  have cl: "cl = (if observables a = [] then 0
          else Max ((\<lambda>ob. compute_likelihood cfg (analyzer_results ob)) ` set (observables a)))"
    using h(1) by (simp add: case_likelihood_scored)
  have "classify_risk cfg (ale rs) = Inr (risk_level rs)"
    if "\<forall>t \<in> ran (RISK_THRESHOLDS cfg). (t \<le> ale rs) = (t \<le> cl * imp)"
    using classify_risk_same_side [OF that] h(3) by simp
  with h show ?thesis unfolding cl by blast
qed

theorem score_case_level_of_unrounded_ale_witness:
  "snd (score_case scenario_config three_observables_case) =
     Inr \<lparr>RiskScore.likelihood = 9 / 10, impact_dollars = 200000, ale = 180000,
          risk_level = ''High''\<rparr>
   \<and> compute_impact scenario_config (asset_type three_observables_case)
        (sensitivity three_observables_case) = Inr 200000
   \<and> classify_risk scenario_config (9 / 10 * 200000) = Inr ''High''
   \<and> classify_risk scenario_config 180000 = Inr ''High''"
proof -
  let ?rs = "\<lparr>RiskScore.likelihood = 9 / 10, impact_dollars = 200000, ale = 180000,
          risk_level = ''High''\<rparr>"
  have l: "(if observables three_observables_case = [] then 0
            else Max ((\<lambda>ob. compute_likelihood scenario_config (analyzer_results ob))
                   ` set (observables three_observables_case))) = 9 / 10"
    using case_likelihood_scored [of scenario_config "observables three_observables_case"]
    by (simp add: score_observables_eq three_likelihoods case_likelihood_of_def)
  obtain imp where h:
    "compute_impact scenario_config (asset_type three_observables_case)
        (sensitivity three_observables_case) = Inr imp"
    "classify_risk scenario_config (9 / 10 * imp) = Inr (risk_level ?rs)"
    "(\<forall>t \<in> ran (RISK_THRESHOLDS scenario_config). (t \<le> ale ?rs) = (t \<le> 9 / 10 * imp))
       \<longrightarrow> classify_risk scenario_config (ale ?rs) = Inr (risk_level ?rs)"
    using score_case_level_of_unrounded_ale [OF three_score] unfolding l by blast
  have imp: "compute_impact scenario_config (asset_type three_observables_case)
               (sensitivity three_observables_case) = Inr 200000"
    by (simp add: three_observables_case_def assessment_of_def compute_impact_def
        lower_database lower_high dict_get_def dict_index_def scenario_config_def)
  with h(1) have i: "imp = 200000" by simp
  have "classify_risk scenario_config (ale ?rs) = Inr (risk_level ?rs)"
    using h(3) unfolding i by simp
  then show ?thesis
    using three_score imp h(2) unfolding i by simp
qed

lemma lower_char_idem: "lower_char (lower_char c) = lower_char c"
proof -
  have "of_char (char_of (of_char c + (32::nat))) = (of_char c + 32 :: nat)"
    if "65 \<le> (of_char c :: nat)" "(of_char c :: nat) \<le> 90"
    using that by (simp add: of_char_of)
  then show ?thesis
    by (auto simp: lower_char_def Let_def)
qed

lemma py_lower_idem: "py_lower (py_lower s) = py_lower s"
  by (simp add: py_lower_def lower_char_idem)

lemma score_case_risk_score:
  "snd (score_case cfg a) = Inr rs \<Longrightarrow> risk_score (fst (score_case cfg a)) = Some rs"
  by (auto simp: score_case_def Let_def split: prod.splits sum.splits)

lemma compute_impact_total:
  assumes "SENSITIVITY_MULTIPLIERS cfg (DEFAULT_SENSITIVITY cfg) = Some dm"
  shows "compute_impact cfg ty sens =
     Inr (dict_get (ASSET_VALUES cfg) (py_lower ty) (DEFAULT_ASSET_VALUE cfg)
          * dict_get (SENSITIVITY_MULTIPLIERS cfg) (py_lower sens) dm)"
  using assms by (simp add: compute_impact_def dict_index_def)

text \<open>
  C6. \<^verbatim>\<open>compute_impact\<close> is a function of the configuration and its two arguments
  only. It returns the base value found under the lower-cased asset type, or the
  default value, times the multiplier found under the lower-cased sensitivity tier, or
  the multiplier of the default tier. Arguments that differ only in case give the same
  impact.
\<close>

theorem compute_impact_lookup:
  assumes "SENSITIVITY_MULTIPLIERS cfg (DEFAULT_SENSITIVITY cfg) = Some dm"
  shows "compute_impact cfg ty sens =
      Inr ((case ASSET_VALUES cfg (py_lower ty) of
              Some b \<Rightarrow> b | None \<Rightarrow> DEFAULT_ASSET_VALUE cfg)
           * (case SENSITIVITY_MULTIPLIERS cfg (py_lower sens) of
                Some m \<Rightarrow> m | None \<Rightarrow> dm))
    \<and> compute_impact cfg (py_lower ty) (py_lower sens) = compute_impact cfg ty sens
    \<and> (py_lower ty = py_lower ty' \<and> py_lower sens = py_lower sens'
         \<longrightarrow> compute_impact cfg ty sens = compute_impact cfg ty' sens')"
proof (intro conjI impI)
  show "compute_impact cfg ty sens =
      Inr ((case ASSET_VALUES cfg (py_lower ty) of
              Some b \<Rightarrow> b | None \<Rightarrow> DEFAULT_ASSET_VALUE cfg)
           * (case SENSITIVITY_MULTIPLIERS cfg (py_lower sens) of
                Some m \<Rightarrow> m | None \<Rightarrow> dm))"
    by (simp add: compute_impact_total [OF assms] dict_get_def split: option.splits)
  show "compute_impact cfg (py_lower ty) (py_lower sens) = compute_impact cfg ty sens"
    by (simp add: compute_impact_total [OF assms] py_lower_idem)
  assume "py_lower ty = py_lower ty' \<and> py_lower sens = py_lower sens'"
  then show "compute_impact cfg ty sens = compute_impact cfg ty' sens'"
    by (simp add: compute_impact_total [OF assms])
qed

theorem compute_impact_lookup_witness:
  "SENSITIVITY_MULTIPLIERS scenario_config (DEFAULT_SENSITIVITY scenario_config) = Some 1
   \<and> py_lower ''Database'' = py_lower ''DATABASE'' \<and> py_lower ''HIGH'' = py_lower ''High''
   \<and> compute_impact scenario_config ''Database'' ''HIGH'' = Inr 200000
   \<and> compute_impact scenario_config ''DATABASE'' ''High'' = Inr 200000
   \<and> compute_impact scenario_config ''Mainframe'' ''top-secret'' = Inr 25000"
proof -
  have d: "SENSITIVITY_MULTIPLIERS scenario_config (DEFAULT_SENSITIVITY scenario_config) = Some 1"
    by (simp add: scenario_config_def)
  have l1: "py_lower ''DATABASE'' = ''database''" and l2: "py_lower ''High'' = ''high''"
    and l3: "py_lower ''Mainframe'' = ''mainframe''"
    and l4: "py_lower ''top-secret'' = ''top-secret''"
    by code_simp+
  note t1 = compute_impact_lookup [OF d, of "''Database''" "''HIGH''" "''DATABASE''" "''High''"]
  note t2 = compute_impact_lookup [OF d, of "''Mainframe''" "''top-secret''"]
  have a: "compute_impact scenario_config ''Database'' ''HIGH'' = Inr 200000"
    using t1 by (simp add: lower_database lower_high) (simp add: scenario_config_def)
  have b: "compute_impact scenario_config ''DATABASE'' ''High'' = Inr 200000"
    using t1 a by (simp add: lower_database lower_high l1 l2)
  have c: "compute_impact scenario_config ''Mainframe'' ''top-secret'' = Inr 25000"
    using t2 by (simp add: l3 l4) (simp add: scenario_config_def)
  show ?thesis
    using a b c d by (simp add: lower_database lower_high l1 l2)
qed

text \<open>
  C8. With a configuration that holds the four cutoffs and a multiplier for the default
  tier, no function of the scoring path raises: \<^verbatim>\<open>score_case\<close> returns a score and
  attaches it, \<^verbatim>\<open>compute_impact\<close> and \<^verbatim>\<open>classify_risk\<close> return a value
  (\<^verbatim>\<open>compute_likelihood\<close> and \<^verbatim>\<open>score_observable\<close> have no raising operation). A verdict
  level without a configured weight, in particular one outside the four canonical
  levels when only these have weights, counts with weight 0; an asset type or a tier that
  is not in its table takes the default.
\<close>

theorem scoring_path_no_exception:
  assumes "SENSITIVITY_MULTIPLIERS cfg (DEFAULT_SENSITIVITY cfg) = Some dm"
    and "RISK_THRESHOLDS cfg ''critical'' = Some c" and "RISK_THRESHOLDS cfg ''high'' = Some h"
    and "RISK_THRESHOLDS cfg ''medium'' = Some m" and "RISK_THRESHOLDS cfg ''low'' = Some l"
  shows "(\<exists>rs. snd (score_case cfg a) = Inr rs \<and> risk_score (fst (score_case cfg a)) = Some rs)
    \<and> (\<exists>imp. compute_impact cfg ty sens = Inr imp)
    \<and> (\<exists>lvl. classify_risk cfg x = Inr lvl)
    \<and> (VERDICT_WEIGHTS cfg (level r) = None
         \<longrightarrow> verdict_weights cfg (rs1 @ r # rs2)
               = verdict_weights cfg rs1 @ 0 # verdict_weights cfg rs2)
    \<and> (dom (VERDICT_WEIGHTS cfg) \<subseteq> {''malicious'', ''suspicious'', ''safe'', ''info''}
         \<and> level r \<notin> {''malicious'', ''suspicious'', ''safe'', ''info''}
         \<longrightarrow> verdict_weights cfg (rs1 @ r # rs2)
               = verdict_weights cfg rs1 @ 0 # verdict_weights cfg rs2)
    \<and> (ASSET_VALUES cfg (py_lower ty) = None \<and> SENSITIVITY_MULTIPLIERS cfg (py_lower sens) = None
         \<longrightarrow> compute_impact cfg ty sens = Inr (DEFAULT_ASSET_VALUE cfg * dm))"
proof (intro conjI impI)
  obtain imp where imp: "compute_impact cfg (asset_type a) (sensitivity a) = Inr imp"
    using compute_impact_total [OF assms(1)] by blast
  obtain cl where cl: "case_likelihood_of (snd (score_observables cfg (observables a))) = Inr cl"
    using case_likelihood_scored by blast
  obtain lvl where lvl: "classify_risk cfg (cl * imp) = Inr lvl"
    using classify_total [OF assms(2-5)] by blast
  have "snd (score_case cfg a) =
     Inr \<lparr>RiskScore.likelihood = py_round cl 4, impact_dollars = imp,
          ale = py_round (cl * imp) 2, risk_level = lvl\<rparr>"
    by (rule score_case_returns [OF cl imp lvl])
  then show "\<exists>rs. snd (score_case cfg a) = Inr rs \<and> risk_score (fst (score_case cfg a)) = Some rs"
    using score_case_risk_score by blast
  show "\<exists>imp. compute_impact cfg ty sens = Inr imp"
    using compute_impact_total [OF assms(1)] by blast
  show "\<exists>lvl. classify_risk cfg x = Inr lvl"
    using classify_total [OF assms(2-5)] by blast
next
  assume "VERDICT_WEIGHTS cfg (level r) = None"
  then show "verdict_weights cfg (rs1 @ r # rs2)
               = verdict_weights cfg rs1 @ 0 # verdict_weights cfg rs2"
    by (simp add: verdict_weights_def dict_get_def)
next
  assume "dom (VERDICT_WEIGHTS cfg) \<subseteq> {''malicious'', ''suspicious'', ''safe'', ''info''}
         \<and> level r \<notin> {''malicious'', ''suspicious'', ''safe'', ''info''}"
  then have "VERDICT_WEIGHTS cfg (level r) = None"
    by (meson domIff subsetD)
  then show "verdict_weights cfg (rs1 @ r # rs2)
               = verdict_weights cfg rs1 @ 0 # verdict_weights cfg rs2"
    by (simp add: verdict_weights_def dict_get_def)
next
  assume "ASSET_VALUES cfg (py_lower ty) = None \<and> SENSITIVITY_MULTIPLIERS cfg (py_lower sens) = None"
  then show "compute_impact cfg ty sens = Inr (DEFAULT_ASSET_VALUE cfg * dm)"
    by (simp add: compute_impact_total [OF assms(1)] dict_get_def)
qed

lemma unrecognised_score:
  "snd (score_case scenario_config unrecognised_case) =
     Inr \<lparr>RiskScore.likelihood = 1 / 2, impact_dollars = 25000, ale = 12500,
          risk_level = ''Medium''\<rparr>"
proof -
  have cl: "case_likelihood_of (snd (score_observables scenario_config
              (observables unrecognised_case))) = Inr (1 / 2)"
    by (simp add: score_observables_eq unrecognised_case_def assessment_of_def observed_def
        case_likelihood_of_def compute_likelihood_def verdict_weights_def
        malicious_analyzers_def dict_get_def scenario_config_def verdict_def Let_def)
  have l3: "py_lower ''Mainframe'' = ''mainframe''"
    and l4: "py_lower ''top-secret'' = ''top-secret''"
    by code_simp+
  have imp: "compute_impact scenario_config (asset_type unrecognised_case)
               (sensitivity unrecognised_case) = Inr 25000"
    by (simp add: unrecognised_case_def assessment_of_def compute_impact_def l3 l4
        dict_get_def dict_index_def scenario_config_def)
  have lvl: "classify_risk scenario_config (1 / 2 * 25000) = Inr ''Medium''"
    by (simp add: classify_risk_def dict_index_def scenario_config_def)
  have r4: "py_round (1 / 2) 4 = 1 / 2"
    by (simp add: py_round_def round_half_even_def Let_def)
  have r2: "py_round (1 / 2 * 25000) 2 = 12500"
    by (simp add: py_round_def round_half_even_def Let_def)
  show ?thesis
    using score_case_returns [OF cl imp lvl] by (simp only: r4 r2)
qed

theorem scoring_path_no_exception_witness:
  "SENSITIVITY_MULTIPLIERS scenario_config (DEFAULT_SENSITIVITY scenario_config) = Some 1
   \<and> RISK_THRESHOLDS scenario_config ''critical'' = Some 500000
   \<and> RISK_THRESHOLDS scenario_config ''high'' = Some 100000
   \<and> RISK_THRESHOLDS scenario_config ''medium'' = Some 10000
   \<and> RISK_THRESHOLDS scenario_config ''low'' = Some 1000
   \<and> VERDICT_WEIGHTS scenario_config (level (verdict ''Sandbox'' ''benign'')) = None
   \<and> dom (VERDICT_WEIGHTS scenario_config) \<subseteq> {''malicious'', ''suspicious'', ''safe'', ''info''}
   \<and> level (verdict ''Sandbox'' ''benign'') \<notin> {''malicious'', ''suspicious'', ''safe'', ''info''}
   \<and> ASSET_VALUES scenario_config (py_lower ''Mainframe'') = None
   \<and> SENSITIVITY_MULTIPLIERS scenario_config (py_lower ''top-secret'') = None
   \<and> snd (score_case scenario_config unrecognised_case) =
       Inr \<lparr>RiskScore.likelihood = 1 / 2, impact_dollars = 25000, ale = 12500,
            risk_level = ''Medium''\<rparr>
   \<and> risk_score (fst (score_case scenario_config unrecognised_case)) =
       Some \<lparr>RiskScore.likelihood = 1 / 2, impact_dollars = 25000, ale = 12500,
             risk_level = ''Medium''\<rparr>
   \<and> verdict_weights scenario_config
        [verdict ''VirusTotal'' ''malicious'', verdict ''Sandbox'' ''benign''] = [1, 0]
   \<and> compute_impact scenario_config ''Mainframe'' ''top-secret'' = Inr 25000"
proof -
  have d: "SENSITIVITY_MULTIPLIERS scenario_config (DEFAULT_SENSITIVITY scenario_config) = Some 1"
    and t: "RISK_THRESHOLDS scenario_config ''critical'' = Some 500000"
      "RISK_THRESHOLDS scenario_config ''high'' = Some 100000"
      "RISK_THRESHOLDS scenario_config ''medium'' = Some 10000"
      "RISK_THRESHOLDS scenario_config ''low'' = Some 1000"
    by (simp_all add: scenario_config_def)
  have l3: "py_lower ''Mainframe'' = ''mainframe''"
    and l4: "py_lower ''top-secret'' = ''top-secret''"
    by code_simp+
  have n: "VERDICT_WEIGHTS scenario_config (level (verdict ''Sandbox'' ''benign'')) = None"
    and lv: "level (verdict ''Sandbox'' ''benign'') \<notin> {''malicious'', ''suspicious'', ''safe'', ''info''}"
    and av: "ASSET_VALUES scenario_config (py_lower ''Mainframe'') = None"
    and sm: "SENSITIVITY_MULTIPLIERS scenario_config (py_lower ''top-secret'') = None"
    by (simp_all add: scenario_config_def verdict_def l3 l4)
  have dm: "dom (VERDICT_WEIGHTS scenario_config) \<subseteq> {''malicious'', ''suspicious'', ''safe'', ''info''}"
    by (auto simp: scenario_config_def split: if_splits)
  have w1: "verdict_weights scenario_config [verdict ''VirusTotal'' ''malicious''] = [1]"
    and w2: "verdict_weights scenario_config ([]::(string, string) AnalyzerResult list) = []"
    by (simp_all add: verdict_weights_def dict_get_def scenario_config_def verdict_def)
  note th = scoring_path_no_exception [OF d t, of unrecognised_case "''Mainframe''"
      "''top-secret''" 0 "verdict ''Sandbox'' ''benign''" "[verdict ''VirusTotal'' ''malicious'']" "[]"]
  have rs: "risk_score (fst (score_case scenario_config unrecognised_case)) =
       Some \<lparr>RiskScore.likelihood = 1 / 2, impact_dollars = 25000, ale = 12500,
             risk_level = ''Medium''\<rparr>"
    using th unrecognised_score by auto
  have vw: "verdict_weights scenario_config
        [verdict ''VirusTotal'' ''malicious'', verdict ''Sandbox'' ''benign''] = [1, 0]"
    using th n w1 w2 by simp
  have ci: "compute_impact scenario_config ''Mainframe'' ''top-secret'' = Inr 25000"
    using th av sm by (simp add: scenario_config_def)
  show ?thesis
    using d t n dm lv av sm unrecognised_score rs vw ci by simp
qed

























end
